theory Spec2Isabelle
  imports Main
begin

section \<open>Data model\<close>

text \<open>
  The two TypeScript sources are the Intent Router (\<^verbatim>\<open>DefaultIntentSupport\<close>) and the
  Broadcast Router (\<^verbatim>\<open>BroadcastHandler\<close>).  JavaScript objects become records; a property
  that may be \<^verbatim>\<open>undefined\<close> or \<^verbatim>\<open>null\<close> becomes an \<open>option\<close> (\<open>None\<close> stands for both,
  which the loose \<^verbatim>\<open>==\<close> of the source does not tell apart).  A thrown exception is the
  \<open>Inl\<close> of a sum.  Records that share a field name are told apart by qualified names
  (\<open>AppIdentifier.appId\<close>, \<open>ListenerRegistration.appId\<close>).
\<close>

datatype JsError =
    Error string   \<comment> \<open>\<^verbatim>\<open>new Error(message)\<close>\<close>
  | TypeError      \<comment> \<open>reading a property of \<^verbatim>\<open>undefined\<close>\<close>

type_synonym 'a result = "JsError + 'a"

record AppIdentifier =
  appId :: string
  instanceId :: "string option"

record Context =
  type :: string
  data :: "(string \<times> string) list"   \<comment> \<open>the other properties of the context, opaque\<close>

record Destination =
  appId :: "string option"
  instanceId :: "string option"

record Meta =
  source :: "AppIdentifier option"
  destination :: "Destination option"
  requestUuid :: string
  timestamp :: nat

text \<open>Every message on the wire is \<^verbatim>\<open>{type, payload, meta}\<close>.\<close>

record 'p Message =
  type :: string
  payload :: 'p
  meta :: Meta

subsection \<open>Intent Router messages\<close>

record IntentMetadata =
  name :: string
  displayName :: "string option"

record AppIntent =
  intent :: IntentMetadata
  apps :: "AppIdentifier list"

datatype RequestPayload =
    FindIntentRequestPayload string Context "string option"   \<comment> \<open>intent, context, resultType\<close>
  | FindIntentsByContextRequestPayload Context                 \<comment> \<open>context\<close>
  | RaiseIntentRequestPayload string Context AppIdentifier     \<comment> \<open>intent, context, app\<close>

record IntentResolutionDetails =
  source :: AppIdentifier
  intent :: string
  version :: "string option"

text \<open>
  The payload of a response as the source reads it (through \<^verbatim>\<open>as any\<close> casts): each
  property may be missing.
\<close>

record ResponsePayload =
  error :: "string option"
  appIntent :: "AppIntent option"
  appIntents :: "AppIntent list option"
  intentResolution :: "IntentResolutionDetails option"

record ChannelPayload =
  id' :: string
  type :: string
  displayMetadata :: "string option"

record IntentResultPayload =
  channel :: "ChannelPayload option"
  "context" :: "Context option"

record ResultPayload =
  intentResult :: "IntentResultPayload option"

type_synonym RaiseIntentResultAgentResponse = "ResultPayload option Message"

text \<open>
  \<open>IntentResult\<close>: a channel object built by \<^verbatim>\<open>new DefaultChannel(messaging, id, type,
  displayMetadata)\<close> or \<^verbatim>\<open>new DefaultPrivateChannel(messaging, id)\<close>, or a context; the
  absent result (\<^verbatim>\<open>undefined\<close>) is \<open>None\<close> of \<open>IntentResult option\<close>.
\<close>

datatype IntentResult =
    DefaultChannel string string "string option"
  | DefaultPrivateChannel string
  | ContextResult Context

record IntentResolutionChoice =
  intent :: IntentMetadata
  chosenApp :: AppIdentifier

subsection \<open>The collaborators: Messaging and IntentResolver\<close>

text \<open>
  Modelled from the spec: the Messaging gateway (\<^verbatim>\<open>createMeta\<close>, \<^verbatim>\<open>exchange\<close>, \<^verbatim>\<open>waitFor\<close>,
  \<^verbatim>\<open>getSource\<close>) and the Intent Resolver (\<^verbatim>\<open>chooseIntent\<close>, \<^verbatim>\<open>intentChosen\<close>), whose code is
  not among the sources; section 6 of the spec gives their interface.  Every call made on
  them is recorded, in order, in a trace; what a call answers is a parameter (\<open>Env\<close>), a
  function of the trace so far and of the call's arguments.  A call is taken to return: an
  \<^verbatim>\<open>exchange\<close> that never answers, or a collaborator that throws, is outside the model.
\<close>

datatype Event =
    CreateMeta
  | Exchange "RequestPayload Message" string
  | WaitFor "RaiseIntentResultAgentResponse \<Rightarrow> bool"
  | IntentChosen "IntentResult option"
  | GetSource
  | ChooseIntent "AppIntent list" AppIdentifier
  | ConsoleLog string

type_synonym Trace = "Event list"

record Env =
  createMeta_ret :: "Trace \<Rightarrow> Meta"
  exchange_ret :: "Trace \<Rightarrow> RequestPayload Message \<Rightarrow> string \<Rightarrow> ResponsePayload Message"
  waitFor_ret :: "Trace \<Rightarrow> (RaiseIntentResultAgentResponse \<Rightarrow> bool)
                   \<Rightarrow> RaiseIntentResultAgentResponse option"
  getSource_ret :: "Trace \<Rightarrow> AppIdentifier"
  chooseIntent_ret :: "Trace \<Rightarrow> AppIntent list \<Rightarrow> AppIdentifier \<Rightarrow> IntentResolutionChoice"

definition createMeta :: "Env \<Rightarrow> Trace \<Rightarrow> Meta \<times> Trace" where
  "createMeta env tr = (createMeta_ret env tr, tr @ [CreateMeta])"

definition exchange ::
  "Env \<Rightarrow> RequestPayload Message \<Rightarrow> string \<Rightarrow> Trace \<Rightarrow> ResponsePayload Message \<times> Trace" where
  "exchange env messageOut expected tr =
     (exchange_ret env tr messageOut expected, tr @ [Exchange messageOut expected])"

text \<open>
  \<^verbatim>\<open>waitFor(predicate)\<close> returns a promise at once; the value paired with the trace is what
  that promise settles to later: the awaited message, or \<open>None\<close> on the gateway's timeout.
\<close>

definition waitFor ::
  "Env \<Rightarrow> (RaiseIntentResultAgentResponse \<Rightarrow> bool) \<Rightarrow> Trace
     \<Rightarrow> RaiseIntentResultAgentResponse option \<times> Trace" where
  "waitFor env p tr = (waitFor_ret env tr p, tr @ [WaitFor p])"

definition getSource :: "Env \<Rightarrow> Trace \<Rightarrow> AppIdentifier \<times> Trace" where
  "getSource env tr = (getSource_ret env tr, tr @ [GetSource])"

definition chooseIntent ::
  "Env \<Rightarrow> AppIntent list \<Rightarrow> AppIdentifier \<Rightarrow> Trace \<Rightarrow> IntentResolutionChoice \<times> Trace" where
  "chooseIntent env candidates requester tr =
     (chooseIntent_ret env tr candidates requester, tr @ [ChooseIntent candidates requester])"

definition intentChosen :: "IntentResult option \<Rightarrow> Trace \<Rightarrow> Trace" where
  "intentChosen ir tr = tr @ [IntentChosen ir]"

text \<open>
  Modelled from the spec: the members of the enumeration \<^verbatim>\<open>ResolveError\<close> of the package
  \<^verbatim>\<open>@finos/fdc3\<close>, which the sources import; the spec names the failures
  \<^verbatim>\<open>NoAppsFound\<close>, \<^verbatim>\<open>TargetAppUnavailable\<close> and \<^verbatim>\<open>TargetInstanceUnavailable\<close>.
\<close>

definition NoAppsFound :: string where
  "NoAppsFound = ''NoAppsFound''"

definition TargetAppUnavailable :: string where
  "TargetAppUnavailable = ''TargetAppUnavailable''"

definition TargetInstanceUnavailable :: string where
  "TargetInstanceUnavailable = ''TargetInstanceUnavailable''"

text \<open>
  The truth value JavaScript gives an optional string in a condition (\<^verbatim>\<open>if (error)\<close>,
  \<^verbatim>\<open>app?.instanceId\<close>): \<^verbatim>\<open>undefined\<close>, \<^verbatim>\<open>null\<close> and the empty string are false.
\<close>

fun truthy :: "string option \<Rightarrow> bool" where
  "truthy None = False"
| "truthy (Some s) = (s \<noteq> [])"

section \<open>Intent Router: \<^verbatim>\<open>DefaultIntentSupport\<close>\<close>

text \<open>
  Parameters and local names that coincide with a record field carry a prime
  (\<open>intent'\<close>, \<open>context'\<close>, \<open>error'\<close>).
\<close>

text \<open>\<^verbatim>\<open>m.payload?.intentResult?.channel\<close> and \<^verbatim>\<open>m.payload?.intentResult?.context\<close>\<close>

definition payload_intentResult_channel ::
  "RaiseIntentResultAgentResponse \<Rightarrow> ChannelPayload option" where
  "payload_intentResult_channel m =
     (case payload m of
        None \<Rightarrow> None
      | Some p \<Rightarrow> (case intentResult p of None \<Rightarrow> None | Some r \<Rightarrow> channel r))"

definition payload_intentResult_context ::
  "RaiseIntentResultAgentResponse \<Rightarrow> Context option" where
  "payload_intentResult_context m =
     (case payload m of
        None \<Rightarrow> None
      | Some p \<Rightarrow>
          (case intentResult p of None \<Rightarrow> None | Some r \<Rightarrow> IntentResultPayload.context r))"

text \<open>
  A channel whose \<^verbatim>\<open>type\<close> is none of the three cases leaves the \<^verbatim>\<open>switch\<close>, and the function
  returns \<^verbatim>\<open>undefined\<close>.
\<close>

definition convertIntentResult :: "RaiseIntentResultAgentResponse \<Rightarrow> IntentResult option" where
  "convertIntentResult m =
     (case payload_intentResult_channel m of
        Some c \<Rightarrow>
          (if ChannelPayload.type c = ''app'' \<or> ChannelPayload.type c = ''user''
             then Some (DefaultChannel (id' c) (ChannelPayload.type c) (displayMetadata c))
           else if ChannelPayload.type c = ''private''
             then Some (DefaultPrivateChannel (id' c))
           else None)
      | None \<Rightarrow>
          (case payload_intentResult_context m of
             Some ctx \<Rightarrow> Some (ContextResult ctx)
           | None \<Rightarrow> None))"

definition findIntent ::
  "Env \<Rightarrow> string \<Rightarrow> Context \<Rightarrow> string option \<Rightarrow> Trace \<Rightarrow> AppIntent result \<times> Trace" where
  "findIntent env intent' context' resultType tr =
     (let (m, tr1) = createMeta env tr;
          messageOut = \<lparr>Message.type = ''findIntentRequest'',
                        payload = FindIntentRequestPayload intent' context' resultType,
                        meta = m\<rparr>;
          (result, tr2) = exchange env messageOut ''findIntentResponse'' tr1;
          error' = error (payload result)
      in if truthy error' then (Inl (Error (the error')), tr2)
         else (case appIntent (payload result) of
                 None \<Rightarrow> (Inl TypeError, tr2)
               | Some ai \<Rightarrow>
                   if length (apps ai) = 0 then (Inl (Error NoAppsFound), tr2)
                   else (Inr \<lparr>AppIntent.intent = AppIntent.intent ai, apps = apps ai\<rparr>, tr2)))"

definition findIntentsByContext ::
  "Env \<Rightarrow> Context \<Rightarrow> Trace \<Rightarrow> AppIntent list result \<times> Trace" where
  "findIntentsByContext env context' tr =
     (let (m, tr1) = createMeta env tr;
          messageOut = \<lparr>Message.type = ''findIntentsByContextRequest'',
                        payload = FindIntentsByContextRequestPayload context',
                        meta = m\<rparr>;
          (result, tr2) = exchange env messageOut ''findIntentsByContextResponse'' tr1
      in case appIntents (payload result) of
           None \<Rightarrow> (Inl TypeError, tr2)
         | Some ais \<Rightarrow>
             if length ais = 0 then (Inl (Error NoAppsFound), tr2)
             else (Inr ais, tr2))"

text \<open>
  An \<^verbatim>\<open>async\<close> function runs at its call up to its first \<^verbatim>\<open>await\<close> and returns a promise;
  the rest of its body runs when the awaited value arrives.  A promise is modelled as that
  rest: a computation still to run, on the trace as it is by then.
\<close>

type_synonym 'a Promise = "Trace \<Rightarrow> 'a result \<times> Trace"

text \<open>The predicate \<^verbatim>\<open>createResultPromise\<close> hands to \<^verbatim>\<open>waitFor\<close>.\<close>

definition resultPredicate ::
  "RequestPayload Message \<Rightarrow> RaiseIntentResultAgentResponse \<Rightarrow> bool" where
  "resultPredicate messageOut m =
     (Message.type m = ''raiseIntentResultResponse'' \<and>
      requestUuid (meta m) = requestUuid (meta messageOut))"

text \<open>The body of \<^verbatim>\<open>createResultPromise\<close> after \<^verbatim>\<open>await this.messaging.waitFor(...)\<close>.\<close>

definition createResultPromise_settle ::
  "RaiseIntentResultAgentResponse option \<Rightarrow> IntentResult option Promise" where
  "createResultPromise_settle rp tr =
     (case rp of
        None \<Rightarrow> (Inr None, tr)
      | Some rp' \<Rightarrow>
          (let ir = convertIntentResult rp';
               tr1 = intentChosen ir tr
           in (Inr ir, tr1)))"

text \<open>The call of \<^verbatim>\<open>createResultPromise\<close>: \<^verbatim>\<open>waitFor\<close> is invoked, the promise returned.\<close>

definition createResultPromise ::
  "Env \<Rightarrow> RequestPayload Message \<Rightarrow> Trace \<Rightarrow> IntentResult option Promise \<times> Trace" where
  "createResultPromise env messageOut tr =
     (let (rp, tr1) = waitFor env (resultPredicate messageOut) tr
      in (createResultPromise_settle rp, tr1))"

text \<open>\<^verbatim>\<open>new DefaultIntentResolution(messaging, resultPromise, source, intent, version)\<close>\<close>

datatype IntentResolution =
  DefaultIntentResolution "IntentResult option Promise" AppIdentifier string "string option"

definition raiseSpecificIntent ::
  "Env \<Rightarrow> string \<Rightarrow> Context \<Rightarrow> AppIdentifier \<Rightarrow> Trace \<Rightarrow> IntentResolution result \<times> Trace" where
  "raiseSpecificIntent env intent' context' app tr =
     (let (m, tr1) = createMeta env tr;
          messageOut = \<lparr>Message.type = ''raiseIntentRequest'',
                        payload = RaiseIntentRequestPayload intent' context' app,
                        meta = m\<rparr>;
          (resultPromise, tr2) = createResultPromise env messageOut tr1;
          (resolution, tr3) = exchange env messageOut ''raiseIntentResponse'' tr2;
          error' = error (payload resolution)
      in if truthy error' then (Inl (Error (the error')), tr3)
         else (case intentResolution (payload resolution) of
                 None \<Rightarrow> (Inl TypeError, tr3)
               | Some details \<Rightarrow>
                   (Inr (DefaultIntentResolution resultPromise
                          (IntentResolutionDetails.source details)
                          (IntentResolutionDetails.intent details)
                          (version details)), tr3)))"

definition matchAppId :: "AppIdentifier \<Rightarrow> AppIdentifier \<Rightarrow> bool" where
  "matchAppId found req =
     (AppIdentifier.appId found = AppIdentifier.appId req \<and>
      ((AppIdentifier.instanceId found = None \<and> AppIdentifier.instanceId req = None) \<or>
       AppIdentifier.instanceId found = AppIdentifier.instanceId req))"

definition filterApps :: "AppIntent \<Rightarrow> AppIdentifier \<Rightarrow> AppIntent" where
  "filterApps appIntent' app =
     \<lparr>AppIntent.intent = AppIntent.intent appIntent',
      apps = filter (\<lambda>a. matchAppId a app) (apps appIntent')\<rparr>"

definition raiseIntent ::
  "Env \<Rightarrow> string \<Rightarrow> Context \<Rightarrow> AppIdentifier option \<Rightarrow> Trace
     \<Rightarrow> IntentResolution result \<times> Trace" where
  "raiseIntent env intent' context' app tr =
     (case findIntent env intent' context' None tr of
        (Inl e, tr1) \<Rightarrow> (Inl e, tr1)
      | (Inr matched, tr1) \<Rightarrow>
          (let tr2 = tr1 @ [ConsoleLog ''Matched intents:''] in
           case app of
             Some a \<Rightarrow>
               (let matched' = filterApps matched a in
                if length (apps matched') = 0 \<and> truthy (AppIdentifier.instanceId a)
                  then (Inl (Error TargetInstanceUnavailable), tr2)
                else if length (apps matched') = 0 \<and> truthy (Some (AppIdentifier.appId a))
                  then (Inl (Error TargetAppUnavailable), tr2)
                else raiseSpecificIntent env intent' context' a tr2)
           | None \<Rightarrow>
               (if length (apps matched) = 0
                  then (Inl (Error NoAppsFound), tr2)
                else if length (apps matched) = 1
                  then raiseSpecificIntent env intent' context' (apps matched ! 0) tr2
                else
                  (let (src, tr3) = getSource env tr2;
                       (chosentIntent, tr4) = chooseIntent env [matched] src tr3
                   in raiseSpecificIntent env
                        (name (IntentResolutionChoice.intent chosentIntent)) context'
                        (chosenApp chosentIntent) tr4))))"

section \<open>Broadcast Router: \<^verbatim>\<open>BroadcastHandler\<close>\<close>

text \<open>
  The payload of the three request kinds the handler reads: \<^verbatim>\<open>channelId\<close> always,
  \<^verbatim>\<open>contextType\<close> of the listener requests, \<^verbatim>\<open>context\<close> of a broadcast.  The dispatch casts
  without a check, so either of the last two may be missing.
\<close>

record PrivateChannelPayload =
  channelId :: string
  contextType :: "string option"
  "context" :: "Context option"

type_synonym AgentRequestMessage = "PrivateChannelPayload Message"

text \<open>
  The source declares \<^verbatim>\<open>appId\<close> and \<^verbatim>\<open>instanceId\<close> as strings and fills them from
  \<^verbatim>\<open>msg.meta.source?.appId!!\<close>; the assertion \<^verbatim>\<open>!!\<close> does nothing when the code runs, so
  both are \<^verbatim>\<open>undefined\<close> when the message has no source.
\<close>

record ListenerRegistration =
  appId :: "string option"
  instanceId :: "string option"
  channelId :: string
  contextType :: "string option"

definition matches :: "ListenerRegistration \<Rightarrow> ListenerRegistration \<Rightarrow> bool" where
  "matches lr1 lr2 =
     (ListenerRegistration.appId lr1 = ListenerRegistration.appId lr2 \<and>
      ListenerRegistration.instanceId lr1 = ListenerRegistration.instanceId lr2 \<and>
      ListenerRegistration.channelId lr1 = ListenerRegistration.channelId lr2 \<and>
      ListenerRegistration.contextType lr1 = ListenerRegistration.contextType lr2)"

definition createListenerRegistration :: "AgentRequestMessage \<Rightarrow> ListenerRegistration" where
  "createListenerRegistration msg =
     \<lparr>ListenerRegistration.appId =
        (case Meta.source (meta msg) of None \<Rightarrow> None | Some s \<Rightarrow> Some (AppIdentifier.appId s)),
      instanceId =
        (case Meta.source (meta msg) of None \<Rightarrow> None | Some s \<Rightarrow> AppIdentifier.instanceId s),
      channelId = PrivateChannelPayload.channelId (payload msg),
      contextType = PrivateChannelPayload.contextType (payload msg)\<rparr>"

record BroadcastHandler =
  regs :: "ListenerRegistration list"

text \<open>
  Modelled from the spec: \<^verbatim>\<open>post(message)\<close>, the fire-and-forget send of section 6, on a
  \<^verbatim>\<open>ServerContext\<close> whose code is not among the sources.  The messages posted are recorded,
  in order.
\<close>

record ServerContext =
  posted :: "AgentRequestMessage list"

definition post :: "AgentRequestMessage \<Rightarrow> ServerContext \<Rightarrow> ServerContext" where
  "post out sc = sc\<lparr>posted := posted sc @ [out]\<rparr>"

text \<open>\<^verbatim>\<open>Array.prototype.findIndex\<close>: the index of the first element that satisfies, or -1.\<close>

fun findIndex :: "('a \<Rightarrow> bool) \<Rightarrow> 'a list \<Rightarrow> int" where
  "findIndex p [] = - 1"
| "findIndex p (x # xs) =
     (if p x then 0 else (let i = findIndex p xs in if i = - 1 then - 1 else i + 1))"

text \<open>\<^verbatim>\<open>xs.splice(start, deleteCount)\<close> for \<open>start \<le> length xs\<close>: the array that is left.\<close>

definition splice' :: "'a list \<Rightarrow> nat \<Rightarrow> nat \<Rightarrow> 'a list" where
  "splice' xs start deleteCount = take start xs @ drop (start + deleteCount) xs"

text \<open>
  A handler returns nothing; its outcome is whether it threw, the handler's state and the
  server context afterwards.
\<close>

type_synonym Outcome = "unit result \<times> BroadcastHandler \<times> ServerContext"

definition handleOnUnsubscribe ::
  "AgentRequestMessage \<Rightarrow> ServerContext \<Rightarrow> BroadcastHandler \<Rightarrow> Outcome" where
  "handleOnUnsubscribe arg0 sc this =
     (let lr = createListenerRegistration arg0;
          fi = findIndex (\<lambda>e. matches e lr) (regs this)
      in if fi > - 1
           then (Inr (), this\<lparr>regs := splice' (regs this) (nat fi) 1\<rparr>, sc)
         else (Inr (), this, sc))"

definition handleOnAddContextListener ::
  "AgentRequestMessage \<Rightarrow> ServerContext \<Rightarrow> BroadcastHandler \<Rightarrow> Outcome" where
  "handleOnAddContextListener arg0 sc this =
     (let lr = createListenerRegistration arg0
      in (Inr (), this\<lparr>regs := regs this @ [lr]\<rparr>, sc))"

definition handleBroadcast ::
  "AgentRequestMessage \<Rightarrow> ServerContext \<Rightarrow> BroadcastHandler \<Rightarrow> Outcome" where
  "handleBroadcast arg0 sc this =
     (let channelId' = PrivateChannelPayload.channelId (payload arg0) in
      case PrivateChannelPayload.context (payload arg0) of
        None \<Rightarrow> (Inl TypeError, this, sc)
      | Some c \<Rightarrow>
          (let contextType' = Context.type c;
               selected =
                 filter (\<lambda>r. ListenerRegistration.channelId r = channelId' \<and>
                              (ListenerRegistration.contextType r = None \<or>
                               ListenerRegistration.contextType r = Some contextType'))
                   (regs this)
           in (Inr (), this,
               fold (\<lambda>r sc'.
                       post \<lparr>Message.type = Message.type arg0,
                             payload = payload arg0,
                             meta = \<lparr>Meta.source = Meta.source (meta arg0),
                                     destination =
                                       Some \<lparr>Destination.appId = ListenerRegistration.appId r,
                                             instanceId = ListenerRegistration.instanceId r\<rparr>,
                                     requestUuid = requestUuid (meta arg0),
                                     timestamp = timestamp (meta arg0)\<rparr>\<rparr> sc')
                 selected sc)))"

definition accept :: "AgentRequestMessage \<Rightarrow> ServerContext \<Rightarrow> BroadcastHandler \<Rightarrow> Outcome" where
  "accept msg sc this =
     (if Message.type msg = ''PrivateChannel.broadcast'' then handleBroadcast msg sc this
      else if Message.type msg = ''PrivateChannel.onAddContextListener''
        then handleOnAddContextListener msg sc this
      else if Message.type msg = ''PrivateChannel.onUnsubscribe''
        then handleOnUnsubscribe msg sc this
      else if Message.type msg = ''broadcast'' then handleBroadcast msg sc this
      else if Message.type msg = ''onAddContextListener''
        then handleOnAddContextListener msg sc this
      else if Message.type msg = ''onUnsubscribe'' then handleOnUnsubscribe msg sc this
      else (Inr (), this, sc))"

section \<open>Example data\<close>

text \<open>
  The two registrations of the spec's Scenario A: the application instance \<open>(X, i1)\<close>
  listens on channel \<open>C1\<close> once for every context type and once for \<open>instrument\<close>.
\<close>

definition scenarioA_regs :: "ListenerRegistration list" where
  "scenarioA_regs =
     [\<lparr>ListenerRegistration.appId = Some ''X'', instanceId = Some ''i1'',
       channelId = ''C1'', contextType = None\<rparr>,
      \<lparr>ListenerRegistration.appId = Some ''X'', instanceId = Some ''i1'',
       channelId = ''C1'', contextType = Some ''instrument''\<rparr>]"

text \<open>A request from \<open>(X, i1)\<close> about channel \<open>C1\<close>, of a given type, context type and context.\<close>

definition example_request ::
  "string \<Rightarrow> string option \<Rightarrow> Context option \<Rightarrow> AgentRequestMessage" where
  "example_request t ct c =
     \<lparr>Message.type = t,
      payload = \<lparr>PrivateChannelPayload.channelId = ''C1'', contextType = ct, context = c\<rparr>,
      meta = \<lparr>Meta.source = Some \<lparr>AppIdentifier.appId = ''X'', instanceId = Some ''i1''\<rparr>,
              destination = None, requestUuid = ''u1'', timestamp = 7\<rparr>\<rparr>"

definition instrument :: Context where
  "instrument = \<lparr>Context.type = ''instrument'', data = [(''ticker'', ''AAPL'')]\<rparr>"

definition contact :: Context where
  "contact = \<lparr>Context.type = ''contact'', data = []\<rparr>"

text \<open>
  Collaborators for the examples: every \<^verbatim>\<open>createMeta\<close> answers \<open>example_meta\<close>, an exchange
  answers the payload \<open>raised\<close> to a raise request and \<open>found\<close> to any other request, and
  \<^verbatim>\<open>waitFor\<close> settles to \<open>rp\<close>.  The application identity is the one of the repository's
  test steps.
\<close>

definition example_meta :: Meta where
  "example_meta =
     \<lparr>Meta.source = Some \<lparr>AppIdentifier.appId = ''Test App Id'', instanceId = Some ''123-ABC''\<rparr>,
      destination = None, requestUuid = ''u1'', timestamp = 7\<rparr>"

definition error_payload :: "string \<Rightarrow> ResponsePayload" where
  "error_payload e =
     \<lparr>error = Some e, appIntent = None, appIntents = None, intentResolution = None\<rparr>"

definition appIntent_payload :: "AppIntent \<Rightarrow> ResponsePayload" where
  "appIntent_payload ai =
     \<lparr>error = None, appIntent = Some ai, appIntents = None, intentResolution = None\<rparr>"

definition appIntents_payload :: "AppIntent list \<Rightarrow> ResponsePayload" where
  "appIntents_payload ais =
     \<lparr>error = None, appIntent = None, appIntents = Some ais, intentResolution = None\<rparr>"

definition intentResolution_payload :: "IntentResolutionDetails \<Rightarrow> ResponsePayload" where
  "intentResolution_payload d =
     \<lparr>error = None, appIntent = None, appIntents = None, intentResolution = Some d\<rparr>"

definition example_env ::
  "ResponsePayload \<Rightarrow> ResponsePayload \<Rightarrow> RaiseIntentResultAgentResponse option \<Rightarrow> Env" where
  "example_env found raised rp =
     \<lparr>createMeta_ret = (\<lambda>tr. example_meta),
      exchange_ret = (\<lambda>tr messageOut expected.
         \<lparr>Message.type = expected,
          payload = (if expected = ''raiseIntentResponse'' then raised else found),
          meta = meta messageOut\<rparr>),
      waitFor_ret = (\<lambda>tr p. rp),
      getSource_ret = (\<lambda>tr. \<lparr>AppIdentifier.appId = ''Test App Id'', instanceId = Some ''123-ABC''\<rparr>),
      chooseIntent_ret = (\<lambda>tr candidates requester.
         \<lparr>IntentResolutionChoice.intent = AppIntent.intent (hd candidates),
          chosenApp = last (apps (hd candidates))\<rparr>)\<rparr>"

definition viewChart :: IntentMetadata where
  "viewChart = \<lparr>name = ''ViewChart'', displayName = None\<rparr>"

definition appA :: "string option \<Rightarrow> AppIdentifier" where
  "appA i = \<lparr>AppIdentifier.appId = ''A'', instanceId = i\<rparr>"

text \<open>
  Scenario C of the spec: the only candidate for \<open>ViewChart\<close> is the instance \<open>real\<close> of
  application \<open>A\<close>; a raise request is acknowledged, and no result message ever arrives.
\<close>

definition scenarioC_env :: Env where
  "scenarioC_env =
     example_env
       (appIntent_payload \<lparr>AppIntent.intent = viewChart, apps = [appA (Some ''real'')]\<rparr>)
       (intentResolution_payload
          \<lparr>IntentResolutionDetails.source = appA (Some ''real''), intent = ''ViewChart'',
           version = None\<rparr>)
       None"

definition example_result ::
  "ChannelPayload option \<Rightarrow> Context option \<Rightarrow> RaiseIntentResultAgentResponse" where
  "example_result c ctx =
     \<lparr>Message.type = ''raiseIntentResultResponse'',
      payload = Some \<lparr>intentResult = Some \<lparr>channel = c, context = ctx\<rparr>\<rparr>,
      meta = example_meta\<rparr>"

definition example_raise :: "AppIdentifier \<Rightarrow> RequestPayload Message" where
  "example_raise app =
     \<lparr>Message.type = ''raiseIntentRequest'',
      payload = RaiseIntentRequestPayload ''ViewChart'' instrument app,
      meta = example_meta\<rparr>"

section \<open>Auxiliary lemmas\<close>

lemma matches_iff_eq: "matches lr1 lr2 \<longleftrightarrow> lr1 = lr2"
  by (cases lr1, cases lr2) (auto simp: matches_def)

lemma findIndex_ge: "- 1 \<le> findIndex p xs"
  by (induction xs) (auto simp: Let_def)

lemma findIndex_none: "findIndex p xs = - 1 \<longleftrightarrow> (\<forall>x\<in>set xs. \<not> p x)"
proof (induction xs)
  case Nil
  show ?case by simp
next
  case (Cons x xs)
  have "- 1 \<le> findIndex p xs" by (rule findIndex_ge)
  with Cons show ?case by (auto simp: Let_def)
qed

text \<open>Finding the first element equal to \<open>y\<close> and splicing it out is \<open>remove1 y\<close>.\<close>

lemma findIndex_remove1:
  "y \<in> set xs \<Longrightarrow> splice' xs (nat (findIndex (\<lambda>e. e = y) xs)) 1 = remove1 y xs"
proof (induction xs)
  case Nil
  then show ?case by simp
next
  case (Cons x xs)
  show ?case
  proof (cases "x = y")
    case True
    then show ?thesis by (simp add: splice'_def)
  next
    case False
    with Cons.prems have mem: "y \<in> set xs" by simp
    then have found: "findIndex (\<lambda>e. e = y) xs \<noteq> - 1" by (simp add: findIndex_none)
    moreover have "- 1 \<le> findIndex (\<lambda>e. e = y) xs" by (rule findIndex_ge)
    ultimately have "0 \<le> findIndex (\<lambda>e. e = y) xs" by linarith
    then have "nat (findIndex (\<lambda>e. e = y) xs + 1) = Suc (nat (findIndex (\<lambda>e. e = y) xs))"
      by simp
    moreover from Cons.IH [OF mem]
    have "take (nat (findIndex (\<lambda>e. e = y) xs)) xs @
          drop (Suc (nat (findIndex (\<lambda>e. e = y) xs))) xs = remove1 y xs"
      by (simp add: splice'_def)
    ultimately show ?thesis
      using False found by (simp add: splice'_def Let_def)
  qed
qed

lemma handleOnUnsubscribe_remove1:
  "handleOnUnsubscribe arg0 sc this =
     (Inr (), this\<lparr>regs := remove1 (createListenerRegistration arg0) (regs this)\<rparr>, sc)"
proof (cases "createListenerRegistration arg0 \<in> set (regs this)")
  case True
  then have "findIndex (\<lambda>e. e = createListenerRegistration arg0) (regs this) \<noteq> - 1"
    by (simp add: findIndex_none)
  moreover have "- 1 \<le> findIndex (\<lambda>e. e = createListenerRegistration arg0) (regs this)"
    by (rule findIndex_ge)
  ultimately have "- 1 < findIndex (\<lambda>e. e = createListenerRegistration arg0) (regs this)"
    by linarith
  with findIndex_remove1 [OF True] show ?thesis
    by (simp add: handleOnUnsubscribe_def matches_iff_eq Let_def)
next
  case False
  then have "findIndex (\<lambda>e. e = createListenerRegistration arg0) (regs this) = - 1"
    by (auto simp: findIndex_none)
  with False show ?thesis
    by (simp add: handleOnUnsubscribe_def matches_iff_eq remove1_idem Let_def)
qed

text \<open>The \<^verbatim>\<open>forEach\<close> of \<^verbatim>\<open>handleBroadcast\<close> posts one message per element, in order.\<close>

lemma fold_post:
  "fold (\<lambda>r sc'. post (f r) sc') xs sc = sc\<lparr>posted := posted sc @ map f xs\<rparr>"
  by (induction xs arbitrary: sc) (simp_all add: post_def)

lemma handleBroadcast_frame: "fst (snd (handleBroadcast arg0 sc this)) = this"
  by (simp add: handleBroadcast_def Let_def split: option.split)

lemma handleBroadcast_posts:
  "PrivateChannelPayload.context (payload arg0) = Some c \<Longrightarrow>
   handleBroadcast arg0 sc this =
     (Inr (), this,
      sc\<lparr>posted := posted sc @
         map (\<lambda>r. \<lparr>Message.type = Message.type arg0,
                    payload = payload arg0,
                    meta = \<lparr>Meta.source = Meta.source (meta arg0),
                            destination =
                              Some \<lparr>Destination.appId = ListenerRegistration.appId r,
                                    instanceId = ListenerRegistration.instanceId r\<rparr>,
                            requestUuid = requestUuid (meta arg0),
                            timestamp = timestamp (meta arg0)\<rparr>\<rparr>)
           (filter (\<lambda>r. ListenerRegistration.channelId r =
                           PrivateChannelPayload.channelId (payload arg0) \<and>
                         (ListenerRegistration.contextType r = None \<or>
                          ListenerRegistration.contextType r = Some (Context.type c)))
              (regs this))\<rparr>)"
  by (simp add: handleBroadcast_def Let_def fold_post)

text \<open>
  The messages a broadcast posts depend on the spelling of its type only through their own
  \<open>type\<close> field.
\<close>

lemma handleBroadcast_type:
  "\<exists>new. \<forall>t. handleBroadcast (msg\<lparr>Message.type := t\<rparr>) sc this =
      (if PrivateChannelPayload.context (payload msg) = None then Inl TypeError else Inr (), this,
       sc\<lparr>posted := posted sc @ map (\<lambda>m. m\<lparr>Message.type := t\<rparr>) new\<rparr>)"
proof (cases "PrivateChannelPayload.context (payload msg)")
  case None
  then have "\<forall>t. handleBroadcast (msg\<lparr>Message.type := t\<rparr>) sc this =
      (if PrivateChannelPayload.context (payload msg) = None then Inl TypeError else Inr (), this,
       sc\<lparr>posted := posted sc @ map (\<lambda>m. m\<lparr>Message.type := t\<rparr>) []\<rparr>)"
    by (simp add: handleBroadcast_def)
  then show ?thesis by blast
next
  case (Some c)
  then have c: "PrivateChannelPayload.context (payload (msg\<lparr>Message.type := t\<rparr>)) = Some c" for t
    by simp
  have "\<forall>t. handleBroadcast (msg\<lparr>Message.type := t\<rparr>) sc this =
      (if PrivateChannelPayload.context (payload msg) = None then Inl TypeError else Inr (), this,
       sc\<lparr>posted := posted sc @ map (\<lambda>m. m\<lparr>Message.type := t\<rparr>)
         (posted (snd (snd (handleBroadcast msg \<lparr>posted = []\<rparr> this))))\<rparr>)"
    using Some by (simp add: handleBroadcast_posts [OF c] handleBroadcast_posts [OF Some] comp_def)
  then show ?thesis by blast
qed

lemmas intent_defs =
  raiseIntent_def findIntent_def findIntentsByContext_def raiseSpecificIntent_def
  createResultPromise_def createResultPromise_settle_def createMeta_def exchange_def
  waitFor_def intentChosen_def filterApps_def matchAppId_def convertIntentResult_def
  payload_intentResult_channel_def payload_intentResult_context_def resultPredicate_def
  NoAppsFound_def TargetAppUnavailable_def TargetInstanceUnavailable_def Let_def

lemmas example_defs =
  example_env_def example_meta_def error_payload_def appIntent_payload_def
  appIntents_payload_def intentResolution_payload_def viewChart_def appA_def
  scenarioC_env_def example_result_def example_raise_def instrument_def

lemma truthy_iff: "truthy x \<longleftrightarrow> (\<exists>e. x = Some e \<and> e \<noteq> [])"
  by (cases x) simp_all

text \<open>\<^verbatim>\<open>findIntent\<close> as a function of the response to its request.\<close>

lemma findIntent_response:
  "findIntent env intent' context' resultType tr =
     (let messageOut = \<lparr>Message.type = ''findIntentRequest'',
                        payload = FindIntentRequestPayload intent' context' resultType,
                        meta = createMeta_ret env tr\<rparr>;
          response = payload (exchange_ret env (tr @ [CreateMeta]) messageOut ''findIntentResponse'');
          tr2 = tr @ [CreateMeta, Exchange messageOut ''findIntentResponse'']
      in if truthy (error response) then (Inl (Error (the (error response))), tr2)
         else (case appIntent response of
                 None \<Rightarrow> (Inl TypeError, tr2)
               | Some ai \<Rightarrow>
                   if apps ai = [] then (Inl (Error NoAppsFound), tr2)
                   else (Inr \<lparr>AppIntent.intent = AppIntent.intent ai, apps = apps ai\<rparr>, tr2)))"
  by (simp add: findIntent_def createMeta_def exchange_def Let_def split: option.split)

lemma findIntentsByContext_response:
  "findIntentsByContext env context' tr =
     (let messageOut = \<lparr>Message.type = ''findIntentsByContextRequest'',
                        payload = FindIntentsByContextRequestPayload context',
                        meta = createMeta_ret env tr\<rparr>;
          response = payload (exchange_ret env (tr @ [CreateMeta]) messageOut
                                ''findIntentsByContextResponse'');
          tr2 = tr @ [CreateMeta, Exchange messageOut ''findIntentsByContextResponse'']
      in case appIntents response of
           None \<Rightarrow> (Inl TypeError, tr2)
         | Some ais \<Rightarrow> if ais = [] then (Inl (Error NoAppsFound), tr2) else (Inr ais, tr2))"
  by (simp add: findIntentsByContext_def createMeta_def exchange_def Let_def split: option.split)

lemma findIntent_Inr_nonempty:
  "findIntent env intent' context' resultType tr = (Inr ai, tr') \<Longrightarrow> apps ai \<noteq> []"
  by (auto simp: findIntent_response Let_def split: if_splits option.splits)

text \<open>The calls \<^verbatim>\<open>raiseSpecificIntent\<close> makes on the gateway, in order.\<close>

lemma raiseSpecificIntent_trace:
  "snd (raiseSpecificIntent env intent' context' app tr) =
     (let messageOut = \<lparr>Message.type = ''raiseIntentRequest'',
                        payload = RaiseIntentRequestPayload intent' context' app,
                        meta = createMeta_ret env tr\<rparr>
      in tr @ [CreateMeta, WaitFor (resultPredicate messageOut),
               Exchange messageOut ''raiseIntentResponse''])"
  by (simp add: raiseSpecificIntent_def createMeta_def createResultPromise_def waitFor_def
        exchange_def Let_def split: option.split)


text \<open>\<^verbatim>\<open>filterApps\<close> keeps the candidates that match under the rule for identifiers.\<close>

lemma filterApps_rule:
  "apps (filterApps matched app) =
     filter (\<lambda>found. AppIdentifier.appId found = AppIdentifier.appId app \<and>
               ((AppIdentifier.instanceId found = None \<and> AppIdentifier.instanceId app = None) \<or>
                (\<exists>i. AppIdentifier.instanceId found = Some i \<and>
                     AppIdentifier.instanceId app = Some i)))
       (apps matched)"
proof -
  have "matchAppId found app \<longleftrightarrow>
        (AppIdentifier.appId found = AppIdentifier.appId app \<and>
           ((AppIdentifier.instanceId found = None \<and> AppIdentifier.instanceId app = None) \<or>
            (\<exists>i. AppIdentifier.instanceId found = Some i \<and>
                 AppIdentifier.instanceId app = Some i)))" for found
    by (cases "AppIdentifier.instanceId found") (auto simp: matchAppId_def)
  then show ?thesis by (simp add: filterApps_def)
qed

lemma scenarioC_findIntent:
  "findIntent scenarioC_env ''ViewChart'' instrument None [] =
     (Inr \<lparr>AppIntent.intent = viewChart, apps = [appA (Some ''real'')]\<rparr>,
      [CreateMeta,
       Exchange \<lparr>Message.type = ''findIntentRequest'',
                 payload = FindIntentRequestPayload ''ViewChart'' instrument None,
                 meta = example_meta\<rparr> ''findIntentResponse''])"
  by (simp add: findIntent_response scenarioC_env_def example_env_def appIntent_payload_def
        Let_def)

section \<open>Intent Router: the claims\<close>

text \<open>
  Claim C1, as the code has it.  When \<^verbatim>\<open>findIntent\<close> has returned and a target application
  is supplied, the candidates are filtered by the rule for identifiers (equal \<open>appId\<close>, and
  \<open>instanceId\<close> absent in both or equal in both).  The two tests of the source are JavaScript
  truth tests of a string.  If no candidate is left and the target's \<open>instanceId\<close> is a
  non-empty string, the call fails with \<open>TargetInstanceUnavailable\<close>; if no candidate is left,
  the target's \<open>instanceId\<close> is absent or the empty string and its \<open>appId\<close> is a non-empty
  string, the call fails with \<open>TargetAppUnavailable\<close>; in every other case the call is
  \<open>raiseSpecificIntent\<close> for the target as supplied, whose raise request carries that very
  identifier and is the last call made on the gateway.
\<close>

theorem raiseIntent_with_target:
  assumes "findIntent env intent' context' None tr = (Inr matched, tr1)"
  shows
  "let candidates =
         filter (\<lambda>found. AppIdentifier.appId found = AppIdentifier.appId app \<and>
                   ((AppIdentifier.instanceId found = None \<and> AppIdentifier.instanceId app = None) \<or>
                    (\<exists>i. AppIdentifier.instanceId found = Some i \<and>
                         AppIdentifier.instanceId app = Some i)))
           (apps matched);
       tr2 = tr1 @ [ConsoleLog ''Matched intents:''];
       messageOut = \<lparr>Message.type = ''raiseIntentRequest'',
                     payload = RaiseIntentRequestPayload intent' context' app,
                     meta = createMeta_ret env tr2\<rparr>;
       outcome = raiseIntent env intent' context' (Some app) tr
   in apps (filterApps matched app) = candidates \<and>
      (candidates = [] \<and> (\<exists>i. AppIdentifier.instanceId app = Some i \<and> i \<noteq> []) \<longrightarrow>
         outcome = (Inl (Error TargetInstanceUnavailable), tr2)) \<and>
      (candidates = [] \<and>
       (AppIdentifier.instanceId app = None \<or> AppIdentifier.instanceId app = Some []) \<and>
       AppIdentifier.appId app \<noteq> [] \<longrightarrow>
         outcome = (Inl (Error TargetAppUnavailable), tr2)) \<and>
      (candidates \<noteq> [] \<or>
       ((AppIdentifier.instanceId app = None \<or> AppIdentifier.instanceId app = Some []) \<and>
        AppIdentifier.appId app = []) \<longrightarrow>
         outcome = raiseSpecificIntent env intent' context' app tr2 \<and>
         snd outcome = tr2 @ [CreateMeta, WaitFor (resultPredicate messageOut),
                              Exchange messageOut ''raiseIntentResponse''])"
proof -
  have r: "raiseIntent env intent' context' (Some app) tr =
      (if apps (filterApps matched app) = [] \<and> truthy (AppIdentifier.instanceId app)
         then (Inl (Error TargetInstanceUnavailable), tr1 @ [ConsoleLog ''Matched intents:''])
       else if apps (filterApps matched app) = [] \<and> AppIdentifier.appId app \<noteq> []
         then (Inl (Error TargetAppUnavailable), tr1 @ [ConsoleLog ''Matched intents:''])
       else raiseSpecificIntent env intent' context' app (tr1 @ [ConsoleLog ''Matched intents:'']))"
    by (simp add: raiseIntent_def assms Let_def)
  show ?thesis
    unfolding Let_def r filterApps_rule [symmetric]
    by (auto simp: raiseSpecificIntent_trace Let_def truthy_iff)
qed

text \<open>
  Scenario C of the spec: the target instance \<open>missing\<close> of \<open>A\<close> against the candidate
  instance \<open>real\<close> is rejected with \<open>TargetInstanceUnavailable\<close>; the target application \<open>B\<close>
  with \<open>TargetAppUnavailable\<close>; and for the target instance \<open>real\<close> the raise request is sent
  with that identifier.
\<close>

theorem raiseIntent_with_target_witness:
  "fst (raiseIntent scenarioC_env ''ViewChart'' instrument (Some (appA (Some ''missing''))) [])
     = Inl (Error TargetInstanceUnavailable) \<and>
   fst (raiseIntent scenarioC_env ''ViewChart'' instrument
          (Some \<lparr>AppIdentifier.appId = ''B'', instanceId = None\<rparr>) [])
     = Inl (Error TargetAppUnavailable) \<and>
   last (snd (raiseIntent scenarioC_env ''ViewChart'' instrument (Some (appA (Some ''real''))) []))
     = Exchange (example_raise (appA (Some ''real''))) ''raiseIntentResponse''"
  using raiseIntent_with_target [OF scenarioC_findIntent, of "appA (Some ''missing'')"]
        raiseIntent_with_target
          [OF scenarioC_findIntent, of "\<lparr>AppIdentifier.appId = ''B'', instanceId = None\<rparr>"]
        raiseIntent_with_target [OF scenarioC_findIntent, of "appA (Some ''real'')"]
  by (simp add: intent_defs example_defs)

text \<open>
  Claim C1 as stated fails where an identifier holds an empty string.  Against the candidate
  instance \<open>real\<close> of \<open>A\<close>, the target \<open>A\<close> with the \<open>instanceId\<close> set to the empty string
  matches no candidate, and the call fails with \<open>TargetAppUnavailable\<close>, not with
  \<open>TargetInstanceUnavailable\<close>; the target with only an \<open>appId\<close>, the empty string, matches no
  candidate either, and the call does not fail: the raise request is sent.
\<close>

theorem raiseIntent_empty_string_target:
  "filter (\<lambda>found. matchAppId found (appA (Some []))) [appA (Some ''real'')] = [] \<and>
   fst (raiseIntent scenarioC_env ''ViewChart'' instrument (Some (appA (Some []))) [])
     = Inl (Error TargetAppUnavailable) \<and>
   TargetAppUnavailable \<noteq> TargetInstanceUnavailable \<and>
   filter (\<lambda>found. matchAppId found \<lparr>AppIdentifier.appId = [], instanceId = None\<rparr>)
     [appA (Some ''real'')] = [] \<and>
   \<not> isl (fst (raiseIntent scenarioC_env ''ViewChart'' instrument
                 (Some \<lparr>AppIdentifier.appId = [], instanceId = None\<rparr>) []))"
  by (simp add: intent_defs example_defs)

text \<open>
  Claim C2, as the code has it.  A successful result of \<^verbatim>\<open>findIntent\<close> has a non-empty list
  of candidates, and a successful result of \<^verbatim>\<open>findIntentsByContext\<close> is a non-empty list of
  \<open>AppIntent\<close>s.  A response to \<^verbatim>\<open>findIntent\<close> with no error, or an empty one, and an empty
  list of candidates makes the call fail with \<open>NoAppsFound\<close>; so does an empty list of
  \<open>AppIntent\<close>s in the response to \<^verbatim>\<open>findIntentsByContext\<close>.  A success of \<^verbatim>\<open>findIntent\<close> is the
  intent and the candidates of the response's \<open>AppIntent\<close>.  A success of
  \<^verbatim>\<open>findIntentsByContext\<close> is the response's list of \<open>AppIntent\<close>s as it came, whenever that list
  is not empty: the candidates inside its members are not looked at.
\<close>

theorem find_results_nonempty:
  "(\<forall>ai tr'. findIntent env intent' context' resultType tr = (Inr ai, tr') \<longrightarrow> apps ai \<noteq> []) \<and>
   (\<forall>ais tr'. findIntentsByContext env context' tr = (Inr ais, tr') \<longrightarrow> ais \<noteq> []) \<and>
   (let messageOut = \<lparr>Message.type = ''findIntentRequest'',
                      payload = FindIntentRequestPayload intent' context' resultType,
                      meta = createMeta_ret env tr\<rparr>;
        response = payload (exchange_ret env (tr @ [CreateMeta]) messageOut ''findIntentResponse'')
    in (\<forall>ai. (error response = None \<or> error response = Some []) \<and>
             appIntent response = Some ai \<and> apps ai = [] \<longrightarrow>
             fst (findIntent env intent' context' resultType tr) = Inl (Error NoAppsFound)) \<and>
       (\<forall>ai tr'. findIntent env intent' context' resultType tr = (Inr ai, tr') \<longrightarrow>
             (\<exists>ai0. appIntent response = Some ai0 \<and>
                    ai = \<lparr>AppIntent.intent = AppIntent.intent ai0, apps = apps ai0\<rparr>))) \<and>
   (let messageOut = \<lparr>Message.type = ''findIntentsByContextRequest'',
                      payload = FindIntentsByContextRequestPayload context',
                      meta = createMeta_ret env tr\<rparr>;
        response = payload (exchange_ret env (tr @ [CreateMeta]) messageOut
                              ''findIntentsByContextResponse'')
    in (appIntents response = Some [] \<longrightarrow>
          fst (findIntentsByContext env context' tr) = Inl (Error NoAppsFound)) \<and>
       (\<forall>ais. appIntents response = Some ais \<and> ais \<noteq> [] \<longrightarrow>
          fst (findIntentsByContext env context' tr) = Inr ais) \<and>
       (\<forall>ais tr'. findIntentsByContext env context' tr = (Inr ais, tr') \<longrightarrow>
          appIntents response = Some ais))"
proof -
  have a: "\<forall>ai tr'. findIntent env intent' context' resultType tr = (Inr ai, tr') \<longrightarrow> apps ai \<noteq> []"
    using findIntent_Inr_nonempty by blast
  have b: "\<forall>ais tr'. findIntentsByContext env context' tr = (Inr ais, tr') \<longrightarrow> ais \<noteq> []"
    by (auto simp: findIntentsByContext_response Let_def split: if_splits option.splits)
  have c: "let messageOut = \<lparr>Message.type = ''findIntentRequest'',
                      payload = FindIntentRequestPayload intent' context' resultType,
                      meta = createMeta_ret env tr\<rparr>;
        response = payload (exchange_ret env (tr @ [CreateMeta]) messageOut ''findIntentResponse'')
    in (\<forall>ai. (error response = None \<or> error response = Some []) \<and>
             appIntent response = Some ai \<and> apps ai = [] \<longrightarrow>
             fst (findIntent env intent' context' resultType tr) = Inl (Error NoAppsFound)) \<and>
       (\<forall>ai tr'. findIntent env intent' context' resultType tr = (Inr ai, tr') \<longrightarrow>
             (\<exists>ai0. appIntent response = Some ai0 \<and>
                    ai = \<lparr>AppIntent.intent = AppIntent.intent ai0, apps = apps ai0\<rparr>))"
    by (auto simp: findIntent_response Let_def split: if_splits option.splits)
  have d: "let messageOut = \<lparr>Message.type = ''findIntentsByContextRequest'',
                      payload = FindIntentsByContextRequestPayload context',
                      meta = createMeta_ret env tr\<rparr>;
        response = payload (exchange_ret env (tr @ [CreateMeta]) messageOut
                              ''findIntentsByContextResponse'')
    in (appIntents response = Some [] \<longrightarrow>
          fst (findIntentsByContext env context' tr) = Inl (Error NoAppsFound)) \<and>
       (\<forall>ais. appIntents response = Some ais \<and> ais \<noteq> [] \<longrightarrow>
          fst (findIntentsByContext env context' tr) = Inr ais) \<and>
       (\<forall>ais tr'. findIntentsByContext env context' tr = (Inr ais, tr') \<longrightarrow>
          appIntents response = Some ais)"
    by (auto simp: findIntentsByContext_response Let_def split: if_splits option.splits)
  from a b c d show ?thesis by blast
qed

theorem find_results_nonempty_witness:
  "findIntent scenarioC_env ''ViewChart'' instrument None [] =
     (Inr \<lparr>AppIntent.intent = viewChart, apps = [appA (Some ''real'')]\<rparr>,
      [CreateMeta,
       Exchange \<lparr>Message.type = ''findIntentRequest'',
                 payload = FindIntentRequestPayload ''ViewChart'' instrument None,
                 meta = example_meta\<rparr> ''findIntentResponse'']) \<and>
   apps \<lparr>AppIntent.intent = viewChart, apps = [appA (Some ''real'')]\<rparr> \<noteq> [] \<and>
   fst (findIntent
          (example_env (appIntent_payload \<lparr>AppIntent.intent = viewChart, apps = []\<rparr>)
             (error_payload []) None)
          ''ViewChart'' instrument None []) = Inl (Error NoAppsFound) \<and>
   fst (findIntentsByContext (example_env (appIntents_payload []) (error_payload []) None)
          instrument []) = Inl (Error NoAppsFound) \<and>
   fst (findIntentsByContext
          (example_env
             (appIntents_payload
                [\<lparr>AppIntent.intent = viewChart, apps = [appA (Some ''real''), appA None]\<rparr>,
                 \<lparr>AppIntent.intent = viewChart, apps = []\<rparr>])
             (error_payload []) None)
          instrument []) =
     Inr [\<lparr>AppIntent.intent = viewChart, apps = [appA (Some ''real''), appA None]\<rparr>,
          \<lparr>AppIntent.intent = viewChart, apps = []\<rparr>]"
  using find_results_nonempty
          [where env = scenarioC_env and intent' = "''ViewChart''"
             and context' = instrument and resultType = None and tr = "[]"]
        find_results_nonempty
          [where env = "example_env
               (appIntent_payload \<lparr>AppIntent.intent = viewChart, apps = []\<rparr>)
               (error_payload []) None"
             and intent' = "''ViewChart''" and context' = instrument
             and resultType = None and tr = "[]"]
        find_results_nonempty
          [where env = "example_env (appIntents_payload []) (error_payload []) None"
             and intent' = "''ViewChart''" and context' = instrument
             and resultType = None and tr = "[]"]
        find_results_nonempty
          [where env = "example_env
             (appIntents_payload
                [\<lparr>AppIntent.intent = viewChart, apps = [appA (Some ''real''), appA None]\<rparr>,
                 \<lparr>AppIntent.intent = viewChart, apps = []\<rparr>])
             (error_payload []) None"
             and intent' = "''ViewChart''" and context' = instrument
             and resultType = None and tr = "[]"]
  by (simp add: intent_defs example_defs)

text \<open>
  Claim C2 as stated fails for \<^verbatim>\<open>findIntentsByContext\<close>: a response whose only \<open>AppIntent\<close> has
  no candidate is returned as a success.  And in \<^verbatim>\<open>findIntent\<close> the error field is tested
  first: an empty list of candidates beside an error is surfaced as that error.
\<close>

theorem findIntentsByContext_returns_empty_candidates:
  "fst (findIntentsByContext
          (example_env (appIntents_payload [\<lparr>AppIntent.intent = viewChart, apps = []\<rparr>])
             (error_payload []) None)
          instrument []) = Inr [\<lparr>AppIntent.intent = viewChart, apps = []\<rparr>] \<and>
   fst (findIntent
          (example_env
             ((appIntent_payload \<lparr>AppIntent.intent = viewChart, apps = []\<rparr>)
                \<lparr>error := Some ''Boom''\<rparr>)
             (error_payload []) None)
          ''ViewChart'' instrument None []) = Inl (Error ''Boom'')"
  by (simp add: findIntentsByContext_response findIntent_response example_env_def
        appIntents_payload_def appIntent_payload_def Let_def)

text \<open>
  Claim C3.  The calls \<^verbatim>\<open>raiseSpecificIntent\<close> makes on the gateway are, in this order:
  \<^verbatim>\<open>createMeta\<close>; \<^verbatim>\<open>waitFor\<close> with the predicate that holds of a message exactly when its type is
  \<open>raiseIntentResultResponse\<close> and its request id is the one of the raise request; and the
  \<^verbatim>\<open>exchange\<close> of the raise request.  So the subscription for the result stands one position
  before the transmission, and the request is transmitted nowhere earlier in the execution.
\<close>

theorem raiseSpecificIntent_waitFor_before_exchange:
  "let messageOut = \<lparr>Message.type = ''raiseIntentRequest'',
                     payload = RaiseIntentRequestPayload intent' context' app,
                     meta = createMeta_ret env tr\<rparr>;
       tr' = snd (raiseSpecificIntent env intent' context' app tr)
   in tr' = tr @ [CreateMeta, WaitFor (resultPredicate messageOut),
                  Exchange messageOut ''raiseIntentResponse''] \<and>
      (\<forall>m. resultPredicate messageOut m \<longleftrightarrow>
            Message.type m = ''raiseIntentResultResponse'' \<and>
            requestUuid (meta m) = requestUuid (meta messageOut)) \<and>
      tr' ! (length tr + 1) = WaitFor (resultPredicate messageOut) \<and>
      tr' ! (length tr + 2) = Exchange messageOut ''raiseIntentResponse'' \<and>
      (\<forall>k e. length tr \<le> k \<and> k < length tr' \<and> tr' ! k = Exchange messageOut e
             \<longrightarrow> length tr + 1 < k)"
proof -
  define messageOut where "messageOut = \<lparr>Message.type = ''raiseIntentRequest'',
                     payload = RaiseIntentRequestPayload intent' context' app,
                     meta = createMeta_ret env tr\<rparr>"
  define tr' where "tr' = snd (raiseSpecificIntent env intent' context' app tr)"
  have tr': "tr' = tr @ [CreateMeta, WaitFor (resultPredicate messageOut),
                  Exchange messageOut ''raiseIntentResponse'']"
    by (simp add: tr'_def messageOut_def raiseSpecificIntent_trace Let_def)
  have i1: "tr' ! (length tr + 1) = WaitFor (resultPredicate messageOut)"
    by (simp add: tr' nth_append)
  have i2: "tr' ! (length tr + 2) = Exchange messageOut ''raiseIntentResponse''"
    by (simp add: tr' nth_append)
  have later: "length tr + 1 < k"
    if "length tr \<le> k" "k < length tr'" "tr' ! k = Exchange messageOut e" for k e
  proof -
    from that(1,2) have "k = length tr \<or> k = length tr + 1 \<or> k = length tr + 2"
      by (auto simp: tr')
    with that(3) show ?thesis by (auto simp: tr' nth_append)
  qed
  show ?thesis
    unfolding Let_def messageOut_def [symmetric] tr'_def [symmetric]
    using tr' i1 i2 later by (auto simp: resultPredicate_def)
qed

theorem raiseSpecificIntent_waitFor_before_exchange_witness:
  "snd (raiseSpecificIntent scenarioC_env ''ViewChart'' instrument (appA None) []) ! 1 =
     WaitFor (resultPredicate (example_raise (appA None))) \<and>
   snd (raiseSpecificIntent scenarioC_env ''ViewChart'' instrument (appA None) []) ! 2 =
     Exchange (example_raise (appA None)) ''raiseIntentResponse'' \<and>
   length (snd (raiseSpecificIntent scenarioC_env ''ViewChart'' instrument (appA None) [])) = 3"
  using raiseSpecificIntent_waitFor_before_exchange
          [where env = scenarioC_env and tr = "[]" and intent' = "''ViewChart''"
             and context' = instrument and app = "appA None"]
  by (simp add: intent_defs example_defs)



text \<open>
  Claim C7, as the code has it.  The test of the error field is a JavaScript truth test.  If
  the response carries an error that is a non-empty string, \<^verbatim>\<open>findIntent\<close> fails with an
  \<open>Error\<close> of that message; otherwise, if the \<open>AppIntent\<close> of the response has no candidate, it
  fails with \<open>NoAppsFound\<close>; otherwise it returns the intent and the candidates of that
  \<open>AppIntent\<close>.
\<close>

theorem findIntent_outcome:
  "let messageOut = \<lparr>Message.type = ''findIntentRequest'',
                     payload = FindIntentRequestPayload intent' context' resultType,
                     meta = createMeta_ret env tr\<rparr>;
       response = payload (exchange_ret env (tr @ [CreateMeta]) messageOut ''findIntentResponse'');
       outcome = fst (findIntent env intent' context' resultType tr)
   in (\<forall>e. error response = Some e \<and> e \<noteq> [] \<longrightarrow> outcome = Inl (Error e)) \<and>
      (\<forall>ai. (error response = None \<or> error response = Some []) \<and>
            appIntent response = Some ai \<and> apps ai = [] \<longrightarrow>
            outcome = Inl (Error NoAppsFound)) \<and>
      (\<forall>ai. (error response = None \<or> error response = Some []) \<and>
            appIntent response = Some ai \<and> apps ai \<noteq> [] \<longrightarrow>
            outcome = Inr \<lparr>AppIntent.intent = AppIntent.intent ai, apps = apps ai\<rparr>)"
  by (auto simp: findIntent_response Let_def truthy_iff)

theorem findIntent_outcome_witness:
  "fst (findIntent (example_env (error_payload ''Boom'') (error_payload []) None)
          ''ViewChart'' instrument None []) = Inl (Error ''Boom'') \<and>
   fst (findIntent
          (example_env (appIntent_payload \<lparr>AppIntent.intent = viewChart, apps = []\<rparr>)
             (error_payload []) None)
          ''ViewChart'' instrument None []) = Inl (Error NoAppsFound) \<and>
   fst (findIntent scenarioC_env ''ViewChart'' instrument None []) =
     Inr \<lparr>AppIntent.intent = viewChart, apps = [appA (Some ''real'')]\<rparr>"
  using findIntent_outcome
          [where env = "example_env (error_payload ''Boom'') (error_payload []) None"
             and tr = "[]" and intent' = "''ViewChart''" and context' = instrument
             and resultType = None]
        findIntent_outcome
          [where env = "example_env
               (appIntent_payload \<lparr>AppIntent.intent = viewChart, apps = []\<rparr>)
               (error_payload []) None"
             and tr = "[]" and intent' = "''ViewChart''" and context' = instrument
             and resultType = None]
        findIntent_outcome
          [where env = scenarioC_env and tr = "[]" and intent' = "''ViewChart''"
             and context' = instrument and resultType = None]
  by (simp add: intent_defs example_defs)

text \<open>
  Claim C7 as stated fails for a response whose error field is the empty string: the test
  takes it for no error.  With no \<open>AppIntent\<close> beside it, reading the candidates throws a
  \<open>TypeError\<close>, not an error carrying the message; with an \<open>AppIntent\<close> beside it, the call
  returns that \<open>AppIntent\<close>.
\<close>

theorem findIntent_empty_error_field:
  "error (error_payload []) = Some [] \<and>
   fst (findIntent (example_env (error_payload []) (error_payload []) None)
          ''ViewChart'' instrument None []) = Inl TypeError \<and>
   fst (findIntent
          (example_env
             ((appIntent_payload \<lparr>AppIntent.intent = viewChart,
                  apps = [\<lparr>AppIdentifier.appId = ''A'', instanceId = None\<rparr>]\<rparr>)
                \<lparr>error := Some []\<rparr>)
             (error_payload []) None)
          ''ViewChart'' instrument None []) =
     Inr \<lparr>AppIntent.intent = viewChart,
          apps = [\<lparr>AppIdentifier.appId = ''A'', instanceId = None\<rparr>]\<rparr>"
  by (simp add: findIntent_response example_env_def error_payload_def appIntent_payload_def
        Let_def)

section \<open>Broadcast Router: the claims\<close>

text \<open>
  Claim C4.  A broadcast on a channel whose payload carries a context forwards one message
  for each registration, counted with its multiplicity and in insertion order, whose
  \<open>channelId\<close> equals the broadcast's and whose \<open>contextType\<close> is absent or equals the type of
  the context, and for no other registration: the messages posted are as many as the
  selected registrations, and the i-th of them keeps the type and the payload of the
  broadcast, has the \<open>appId\<close> and \<open>instanceId\<close> of the i-th selected registration as its
  destination, and has the source, the request id and the timestamp of the broadcast.
  Nothing already posted is touched.
\<close>

theorem handleBroadcast_forwards_to_matching:
  assumes "PrivateChannelPayload.context (payload arg0) = Some c"
  shows
  "let selected =
         filter (\<lambda>r. ListenerRegistration.channelId r =
                         PrivateChannelPayload.channelId (payload arg0) \<and>
                       (ListenerRegistration.contextType r = None \<or>
                        ListenerRegistration.contextType r = Some (Context.type c)))
           (regs this);
       (res, this', sc') = handleBroadcast arg0 sc this;
       new = drop (length (posted sc)) (posted sc')
   in res = Inr () \<and>
      take (length (posted sc)) (posted sc') = posted sc \<and>
      length new = length selected \<and>
      (\<forall>i < length selected.
         Message.type (new ! i) = Message.type arg0 \<and>
         payload (new ! i) = payload arg0 \<and>
         destination (meta (new ! i)) =
           Some \<lparr>Destination.appId = ListenerRegistration.appId (selected ! i),
                 instanceId = ListenerRegistration.instanceId (selected ! i)\<rparr> \<and>
         Meta.source (meta (new ! i)) = Meta.source (meta arg0) \<and>
         requestUuid (meta (new ! i)) = requestUuid (meta arg0) \<and>
         timestamp (meta (new ! i)) = timestamp (meta arg0))"
  by (simp add: handleBroadcast_posts [OF assms] Let_def)

text \<open>
  Scenario A of the spec: with the wildcard and the \<open>instrument\<close> registration of \<open>(X, i1)\<close>
  on \<open>C1\<close>, a broadcast of an \<open>instrument\<close> yields two messages to \<open>(X, i1)\<close>, a broadcast of
  a \<open>contact\<close> exactly one.
\<close>

theorem handleBroadcast_forwards_to_matching_witness:
  "PrivateChannelPayload.context (payload (example_request ''broadcast'' None (Some instrument)))
     = Some instrument \<and>
   map (\<lambda>m. (Message.type m, destination (meta m)))
     (posted (snd (snd (handleBroadcast (example_request ''broadcast'' None (Some instrument))
        \<lparr>posted = []\<rparr> \<lparr>regs = scenarioA_regs\<rparr>)))) =
     [(''broadcast'', Some \<lparr>Destination.appId = Some ''X'', instanceId = Some ''i1''\<rparr>),
      (''broadcast'', Some \<lparr>Destination.appId = Some ''X'', instanceId = Some ''i1''\<rparr>)] \<and>
   length (posted (snd (snd (handleBroadcast (example_request ''broadcast'' None (Some contact))
        \<lparr>posted = []\<rparr> \<lparr>regs = scenarioA_regs\<rparr>)))) = 1"
  using handleBroadcast_forwards_to_matching
          [of "example_request ''broadcast'' None (Some instrument)" instrument
              "\<lparr>regs = scenarioA_regs\<rparr>" "\<lparr>posted = []\<rparr>"]
        handleBroadcast_forwards_to_matching
          [of "example_request ''broadcast'' None (Some contact)" contact
              "\<lparr>regs = scenarioA_regs\<rparr>" "\<lparr>posted = []\<rparr>"]
  by (simp add: example_request_def scenarioA_regs_def instrument_def contact_def
        handleBroadcast_def post_def Let_def)

text \<open>
  Claim C6.  The registration of an unsubscribe request is made of the request's own four
  fields: the \<open>appId\<close> and the \<open>instanceId\<close> of its source, the \<open>channelId\<close> and the
  \<open>contextType\<close> of its payload.  The request removes at most one registration: the first,
  in insertion order, that is identical to that registration in all four fields (\<open>matches\<close>
  compares the four fields, which is equality of registrations).  The list that is left is
  the list without the first occurrence; it is the list itself when nothing matches; and a
  request whose payload has no context type leaves every registration that has a context
  type in place.
\<close>

theorem handleOnUnsubscribe_removes_first_match:
  "let lr = \<lparr>ListenerRegistration.appId =
               (case Meta.source (meta arg0) of
                  None \<Rightarrow> None | Some s \<Rightarrow> Some (AppIdentifier.appId s)),
             instanceId =
               (case Meta.source (meta arg0) of
                  None \<Rightarrow> None | Some s \<Rightarrow> AppIdentifier.instanceId s),
             channelId = PrivateChannelPayload.channelId (payload arg0),
             contextType = PrivateChannelPayload.contextType (payload arg0)\<rparr>;
       (res, this', sc') = handleOnUnsubscribe arg0 sc this
   in createListenerRegistration arg0 = lr \<and>
      res = Inr () \<and> sc' = sc \<and>
      (\<forall>r. matches r lr \<longleftrightarrow>
           ListenerRegistration.appId r = ListenerRegistration.appId lr \<and>
           ListenerRegistration.instanceId r = ListenerRegistration.instanceId lr \<and>
           ListenerRegistration.channelId r = ListenerRegistration.channelId lr \<and>
           ListenerRegistration.contextType r = ListenerRegistration.contextType lr) \<and>
      (\<forall>r. matches r lr \<longleftrightarrow> r = lr) \<and>
      regs this' = remove1 lr (regs this) \<and>
      (lr \<notin> set (regs this) \<longrightarrow> this' = this) \<and>
      (\<forall>xs ys. regs this = xs @ lr # ys \<and> lr \<notin> set xs \<longrightarrow> regs this' = xs @ ys) \<and>
      length (regs this) \<le> length (regs this') + 1 \<and>
      (PrivateChannelPayload.contextType (payload arg0) = None \<longrightarrow>
         filter (\<lambda>r. ListenerRegistration.contextType r \<noteq> None) (regs this') =
         filter (\<lambda>r. ListenerRegistration.contextType r \<noteq> None) (regs this)) \<and>
      (\<forall>r. r \<in> set (regs this) \<and>
           (ListenerRegistration.appId r \<noteq> ListenerRegistration.appId lr \<or>
            ListenerRegistration.instanceId r \<noteq> ListenerRegistration.instanceId lr \<or>
            ListenerRegistration.channelId r \<noteq> ListenerRegistration.channelId lr \<or>
            ListenerRegistration.contextType r \<noteq> ListenerRegistration.contextType lr) \<longrightarrow>
           count_list (regs this') r = count_list (regs this) r)"
proof -
  define lr where "lr = \<lparr>ListenerRegistration.appId =
               (case Meta.source (meta arg0) of
                  None \<Rightarrow> None | Some s \<Rightarrow> Some (AppIdentifier.appId s)),
             instanceId =
               (case Meta.source (meta arg0) of
                  None \<Rightarrow> None | Some s \<Rightarrow> AppIdentifier.instanceId s),
             channelId = PrivateChannelPayload.channelId (payload arg0),
             contextType = PrivateChannelPayload.contextType (payload arg0)\<rparr>"
  have made: "createListenerRegistration arg0 = lr"
    by (simp add: createListenerRegistration_def lr_def)
  have ct: "ListenerRegistration.contextType lr = PrivateChannelPayload.contextType (payload arg0)"
    by (simp add: lr_def)
  have eq: "handleOnUnsubscribe arg0 sc this = (Inr (), this\<lparr>regs := remove1 lr (regs this)\<rparr>, sc)"
    by (simp add: handleOnUnsubscribe_remove1 made)
  have fields: "matches r lr \<longleftrightarrow>
           ListenerRegistration.appId r = ListenerRegistration.appId lr \<and>
           ListenerRegistration.instanceId r = ListenerRegistration.instanceId lr \<and>
           ListenerRegistration.channelId r = ListenerRegistration.channelId lr \<and>
           ListenerRegistration.contextType r = ListenerRegistration.contextType lr" for r
    by (simp add: matches_def)
  have first: "regs this = xs @ lr # ys \<and> lr \<notin> set xs \<longrightarrow> remove1 lr (regs this) = xs @ ys"
    for xs ys
    by (auto simp: remove1_append)
  have len: "length (regs this) \<le> length (remove1 lr (regs this)) + 1"
    by (cases "lr \<in> set (regs this)") (simp_all add: length_remove1 remove1_idem)
  have wild: "PrivateChannelPayload.contextType (payload arg0) = None \<longrightarrow>
         filter (\<lambda>r. ListenerRegistration.contextType r \<noteq> None) (remove1 lr (regs this)) =
         filter (\<lambda>r. ListenerRegistration.contextType r \<noteq> None) (regs this)"
    using ct by (simp add: filter_remove1 remove1_idem)
  have cnt: "count_list (remove1 y xs) r = count_list xs r" if "r \<noteq> y"
    for xs :: "ListenerRegistration list" and y r
    using that by (induction xs) auto
  have others: "r \<in> set (regs this) \<and>
           (ListenerRegistration.appId r \<noteq> ListenerRegistration.appId lr \<or>
            ListenerRegistration.instanceId r \<noteq> ListenerRegistration.instanceId lr \<or>
            ListenerRegistration.channelId r \<noteq> ListenerRegistration.channelId lr \<or>
            ListenerRegistration.contextType r \<noteq> ListenerRegistration.contextType lr) \<longrightarrow>
           count_list (remove1 lr (regs this)) r = count_list (regs this) r" for r
    using cnt [of r lr "regs this"] by auto
  have unchanged: "lr \<notin> set (regs this) \<longrightarrow> this\<lparr>regs := remove1 lr (regs this)\<rparr> = this"
    by (simp add: remove1_idem)
  show ?thesis
    unfolding lr_def [symmetric] Let_def eq prod.case
  proof (intro conjI allI)
    show "createListenerRegistration arg0 = lr" by (rule made)
    show "Inr () = (Inr () :: unit result)" by simp
    show "sc = sc" by simp
    show "matches r lr \<longleftrightarrow>
           ListenerRegistration.appId r = ListenerRegistration.appId lr \<and>
           ListenerRegistration.instanceId r = ListenerRegistration.instanceId lr \<and>
           ListenerRegistration.channelId r = ListenerRegistration.channelId lr \<and>
           ListenerRegistration.contextType r = ListenerRegistration.contextType lr" for r
      by (rule fields)
    show "matches r lr \<longleftrightarrow> r = lr" for r by (rule matches_iff_eq)
    show "regs (this\<lparr>regs := remove1 lr (regs this)\<rparr>) = remove1 lr (regs this)" by simp
    show "lr \<notin> set (regs this) \<longrightarrow> this\<lparr>regs := remove1 lr (regs this)\<rparr> = this"
      by (rule unchanged)
    show "regs this = xs @ lr # ys \<and> lr \<notin> set xs \<longrightarrow>
          regs (this\<lparr>regs := remove1 lr (regs this)\<rparr>) = xs @ ys" for xs ys
      using first [of xs ys] by simp
    show "length (regs this) \<le> length (regs (this\<lparr>regs := remove1 lr (regs this)\<rparr>)) + 1"
      using len by simp
    show "PrivateChannelPayload.contextType (payload arg0) = None \<longrightarrow>
         filter (\<lambda>r. ListenerRegistration.contextType r \<noteq> None)
           (regs (this\<lparr>regs := remove1 lr (regs this)\<rparr>)) =
         filter (\<lambda>r. ListenerRegistration.contextType r \<noteq> None) (regs this)"
      using wild by simp
    show "r \<in> set (regs this) \<and>
           (ListenerRegistration.appId r \<noteq> ListenerRegistration.appId lr \<or>
            ListenerRegistration.instanceId r \<noteq> ListenerRegistration.instanceId lr \<or>
            ListenerRegistration.channelId r \<noteq> ListenerRegistration.channelId lr \<or>
            ListenerRegistration.contextType r \<noteq> ListenerRegistration.contextType lr) \<longrightarrow>
           count_list (regs (this\<lparr>regs := remove1 lr (regs this)\<rparr>)) r =
           count_list (regs this) r" for r
      using others [of r] by simp
  qed
qed

text \<open>
  A wildcard unsubscribe of \<open>(X, i1)\<close> on \<open>C1\<close>: of the registrations wildcard, \<open>instrument\<close>,
  wildcard it removes the first wildcard only; of the single \<open>instrument\<close> registration it
  removes nothing.  An unsubscribe of \<open>(Y, i9)\<close> on \<open>C7\<close> for \<open>instrument\<close> removes nothing
  from the registrations of \<open>(X, i1)\<close>.
\<close>

theorem handleOnUnsubscribe_removes_first_match_witness:
  "createListenerRegistration (example_request ''onUnsubscribe'' None None) = hd scenarioA_regs \<and>
   regs (fst (snd (handleOnUnsubscribe (example_request ''onUnsubscribe'' None None)
        \<lparr>posted = []\<rparr> \<lparr>regs = scenarioA_regs @ [hd scenarioA_regs]\<rparr>))) =
     tl scenarioA_regs @ [hd scenarioA_regs] \<and>
   regs (fst (snd (handleOnUnsubscribe (example_request ''onUnsubscribe'' None None)
        \<lparr>posted = []\<rparr> \<lparr>regs = tl scenarioA_regs\<rparr>))) = tl scenarioA_regs \<and>
   regs (fst (snd (handleOnUnsubscribe
        \<lparr>Message.type = ''onUnsubscribe'',
         payload = \<lparr>PrivateChannelPayload.channelId = ''C7'',
                    contextType = Some ''instrument'', context = None\<rparr>,
         meta = \<lparr>Meta.source = Some \<lparr>AppIdentifier.appId = ''Y'', instanceId = Some ''i9''\<rparr>,
                 destination = None, requestUuid = ''u2'', timestamp = 8\<rparr>\<rparr>
        \<lparr>posted = []\<rparr> \<lparr>regs = scenarioA_regs\<rparr>))) = scenarioA_regs"
proof -
  have left: "regs (fst (snd (handleOnUnsubscribe m sc h))) =
              remove1 (createListenerRegistration m) (regs h)" for m sc h
    using handleOnUnsubscribe_removes_first_match [of m sc h]
    by (simp add: Let_def split_beta)
  show ?thesis
    by (simp add: left example_request_def scenarioA_regs_def createListenerRegistration_def)
qed

text \<open>
  Claim C8, as the code has it.  A message dispatched under a namespaced spelling and the
  same message dispatched under the legacy spelling reach the same handler: both end the
  same way (normally, or with the same error), leave the same registrations, and post the
  same number of messages, equal field by field except for \<open>type\<close>, which is the spelling the
  message came in with.  The two listener requests post nothing under either spelling.
\<close>

theorem accept_spellings_agree_up_to_type:
  assumes "(ns, bare) \<in> {(''PrivateChannel.broadcast'', ''broadcast''),
                          (''PrivateChannel.onAddContextListener'', ''onAddContextListener''),
                          (''PrivateChannel.onUnsubscribe'', ''onUnsubscribe'')}"
  shows
  "let (r1, h1, sc1) = accept (msg\<lparr>Message.type := ns\<rparr>) sc this;
       (r2, h2, sc2) = accept (msg\<lparr>Message.type := bare\<rparr>) sc this
   in r1 = r2 \<and> h1 = h2 \<and>
      (\<exists>new. posted sc1 = posted sc @ map (\<lambda>m. m\<lparr>Message.type := ns\<rparr>) new \<and>
             posted sc2 = posted sc @ map (\<lambda>m. m\<lparr>Message.type := bare\<rparr>) new) \<and>
      (bare \<noteq> ''broadcast'' \<longrightarrow> sc1 = sc \<and> sc2 = sc)"
proof -
  obtain new where new: "\<And>t. handleBroadcast (msg\<lparr>Message.type := t\<rparr>) sc this =
      (if PrivateChannelPayload.context (payload msg) = None then Inl TypeError else Inr (), this,
       sc\<lparr>posted := posted sc @ map (\<lambda>m. m\<lparr>Message.type := t\<rparr>) new\<rparr>)"
    using handleBroadcast_type by blast
  have reg: "createListenerRegistration (msg\<lparr>Message.type := t\<rparr>) = createListenerRegistration msg"
    for t by (simp add: createListenerRegistration_def)
  from assms consider
      (b) "ns = ''PrivateChannel.broadcast''" "bare = ''broadcast''"
    | (a) "ns = ''PrivateChannel.onAddContextListener''" "bare = ''onAddContextListener''"
    | (u) "ns = ''PrivateChannel.onUnsubscribe''" "bare = ''onUnsubscribe''"
    by auto
  then show ?thesis
  proof cases
    case b
    have "\<exists>n. posted sc @ map (\<lambda>m. m\<lparr>Message.type := ns\<rparr>) new =
                posted sc @ map (\<lambda>m. m\<lparr>Message.type := ns\<rparr>) n \<and>
              posted sc @ map (\<lambda>m. m\<lparr>Message.type := bare\<rparr>) new =
                posted sc @ map (\<lambda>m. m\<lparr>Message.type := bare\<rparr>) n"
      by blast
    then show ?thesis
      using b by (simp add: accept_def new)
  next
    case a
    have "\<exists>n::AgentRequestMessage list. n = []" by simp
    then show ?thesis
      using a by (simp add: accept_def handleOnAddContextListener_def reg)
  next
    case u
    have "\<exists>n::AgentRequestMessage list. n = []" by simp
    then show ?thesis
      using u by (simp add: accept_def handleOnUnsubscribe_remove1 reg)
  qed
qed

theorem accept_spellings_agree_up_to_type_witness:
  "(''PrivateChannel.broadcast'', ''broadcast'') \<in>
      {(''PrivateChannel.broadcast'', ''broadcast''),
       (''PrivateChannel.onAddContextListener'', ''onAddContextListener''),
       (''PrivateChannel.onUnsubscribe'', ''onUnsubscribe'')} \<and>
   map (\<lambda>m. m\<lparr>Message.type := ''broadcast''\<rparr>)
     (posted (snd (snd (accept
        ((example_request [] None (Some instrument))\<lparr>Message.type := ''PrivateChannel.broadcast''\<rparr>)
        \<lparr>posted = []\<rparr> \<lparr>regs = scenarioA_regs\<rparr>)))) =
   posted (snd (snd (accept
      ((example_request [] None (Some instrument))\<lparr>Message.type := ''broadcast''\<rparr>)
      \<lparr>posted = []\<rparr> \<lparr>regs = scenarioA_regs\<rparr>)))"
  using accept_spellings_agree_up_to_type
          [of "''PrivateChannel.broadcast''" "''broadcast''"
              "example_request [] None (Some instrument)" "\<lparr>posted = []\<rparr>"
              "\<lparr>regs = scenarioA_regs\<rparr>"]
  by (simp add: accept_def handleBroadcast_def post_def example_request_def scenarioA_regs_def
        instrument_def Let_def)

text \<open>
  Claim C8 as stated fails: with the registrations of Scenario A, a broadcast of an
  \<open>instrument\<close> on \<open>C1\<close> posts messages of type \<open>PrivateChannel.broadcast\<close> under the namespaced
  spelling and of type \<open>broadcast\<close> under the legacy one, so the posted messages differ.
\<close>

theorem accept_spellings_posted_differ:
  "posted (snd (snd (accept
      ((example_request [] None (Some instrument))\<lparr>Message.type := ''PrivateChannel.broadcast''\<rparr>)
      \<lparr>posted = []\<rparr> \<lparr>regs = scenarioA_regs\<rparr>))) \<noteq>
   posted (snd (snd (accept
      ((example_request [] None (Some instrument))\<lparr>Message.type := ''broadcast''\<rparr>)
      \<lparr>posted = []\<rparr> \<lparr>regs = scenarioA_regs\<rparr>)))"
  by (simp add: accept_def handleBroadcast_def post_def example_request_def scenarioA_regs_def
        instrument_def Let_def)

text \<open>
  Claim C9.  A message whose type is none of the six spellings falls through the
  \<^verbatim>\<open>switch\<close>: \<open>accept\<close> returns normally, the registrations are unchanged and nothing is
  posted.
\<close>

theorem accept_ignores_unknown_type:
  "Message.type msg \<notin> {''PrivateChannel.broadcast'', ''PrivateChannel.onAddContextListener'',
      ''PrivateChannel.onUnsubscribe'', ''broadcast'', ''onAddContextListener'',
      ''onUnsubscribe''}
   \<Longrightarrow> accept msg sc this = (Inr (), this, sc)"
  by (simp add: accept_def)

theorem accept_ignores_unknown_type_witness:
  "Message.type (example_request ''findIntentRequest'' None None) \<notin>
     {''PrivateChannel.broadcast'', ''PrivateChannel.onAddContextListener'',
      ''PrivateChannel.onUnsubscribe'', ''broadcast'', ''onAddContextListener'',
      ''onUnsubscribe''} \<and>
   accept (example_request ''findIntentRequest'' None None) \<lparr>posted = []\<rparr>
     \<lparr>regs = scenarioA_regs\<rparr> = (Inr (), \<lparr>regs = scenarioA_regs\<rparr>, \<lparr>posted = []\<rparr>)"
  using accept_ignores_unknown_type
          [of "example_request ''findIntentRequest'' None None" "\<lparr>posted = []\<rparr>"
              "\<lparr>regs = scenarioA_regs\<rparr>"]
  by (simp add: example_request_def)

text \<open>
  Claim C10.  \<open>handleBroadcast\<close> leaves the handler, that is its list of registrations, as
  it was, whatever the message; and a message that \<open>accept\<close> answers with a changed list of
  registrations is an add-context-listener or an unsubscribe request, under either
  spelling.
\<close>

theorem handleBroadcast_keeps_registrations:
  "fst (snd (handleBroadcast arg0 sc this)) = this \<and>
   (regs (fst (snd (accept msg sc this))) \<noteq> regs this \<longrightarrow>
      Message.type msg \<in> {''PrivateChannel.onAddContextListener'',
        ''PrivateChannel.onUnsubscribe'', ''onAddContextListener'', ''onUnsubscribe''})"
  by (simp add: accept_def handleBroadcast_frame)

theorem handleBroadcast_keeps_registrations_witness:
  "regs (fst (snd (accept (example_request ''onAddContextListener'' None None) \<lparr>posted = []\<rparr>
      \<lparr>regs = scenarioA_regs\<rparr>))) \<noteq> regs \<lparr>regs = scenarioA_regs\<rparr> \<and>
   Message.type (example_request ''onAddContextListener'' None None) \<in>
     {''PrivateChannel.onAddContextListener'', ''PrivateChannel.onUnsubscribe'',
      ''onAddContextListener'', ''onUnsubscribe''} \<and>
   fst (snd (handleBroadcast (example_request ''broadcast'' None (Some instrument))
      \<lparr>posted = []\<rparr> \<lparr>regs = scenarioA_regs\<rparr>)) = \<lparr>regs = scenarioA_regs\<rparr>"
  using handleBroadcast_keeps_registrations
          [of "example_request ''broadcast'' None (Some instrument)" "\<lparr>posted = []\<rparr>"
              "\<lparr>regs = scenarioA_regs\<rparr>"
              "example_request ''onAddContextListener'' None None"]
  by (simp add: accept_def handleOnAddContextListener_def example_request_def Let_def)

end
